theory Spec2Isabelle
  imports Main "HOL-Library.AList" "HOL-Library.Sublist"
begin

section \<open>Python values carried by form data\<close>

text \<open>
  The callbacks of \<^verbatim>\<open>foris/config_handlers/base.py\<close> receive a dictionary from field
  names to Python values: strings (text boxes, drop-downs), booleans (check boxes),
  \<^verbatim>\<open>None\<close>, integers, lists of strings (multi check boxes) and uploaded files.
\<close>

datatype val = VNone | VBool bool | VInt int | VStr string | VList "string list" | VFile string

datatype error = KeyError string | TypeError | AttributeError

text \<open>A dictionary is an association list; the first binding of a key is the live one.\<close>

type_synonym data = "(string \<times> val) list"

definition bind_err :: "error + 'a \<Rightarrow> ('a \<Rightarrow> error + 'b) \<Rightarrow> error + 'b" where
  "bind_err m f = (case m of Inl e \<Rightarrow> Inl e | Inr v \<Rightarrow> f v)"

text \<open>\<^verbatim>\<open>data[k]\<close>: raises KeyError on a missing key.\<close>

definition getitem :: "data \<Rightarrow> string \<Rightarrow> error + val" where
  "getitem d k = (case map_of d k of None \<Rightarrow> Inl (KeyError k) | Some v \<Rightarrow> Inr v)"

text \<open>\<^verbatim>\<open>data.get(k, default)\<close>; \<^verbatim>\<open>data.get(k)\<close> is \<open>get_default d k VNone\<close>.\<close>

definition get_default :: "data \<Rightarrow> string \<Rightarrow> val \<Rightarrow> val" where
  "get_default d k dflt = (case map_of d k of None \<Rightarrow> dflt | Some v \<Rightarrow> v)"

text \<open>\<^verbatim>\<open>data.iteritems()\<close>: every key once, in the order the dictionary keeps.\<close>

definition iteritems :: "data \<Rightarrow> (string \<times> val) list" where
  "iteritems d = AList.clearjunk d"

text \<open>Truth value of a Python object in a condition (\<^verbatim>\<open>if v:\<close>, \<^verbatim>\<open>not v\<close>, \<^verbatim>\<open>a and b\<close>).\<close>

fun truthy :: "val \<Rightarrow> bool" where
  "truthy VNone = False"
| "truthy (VBool b) = b"
| "truthy (VInt i) = (i \<noteq> 0)"
| "truthy (VStr s) = (s \<noteq> [])"
| "truthy (VList xs) = (xs \<noteq> [])"
| "truthy (VFile f) = True"

text \<open>\<^verbatim>\<open>v is True\<close>: identity with the singleton, so only the boolean itself.\<close>

definition is_True :: "val \<Rightarrow> bool" where
  "is_True v = (v = VBool True)"

subsection \<open>Strings\<close>

fun dec_nat :: "nat \<Rightarrow> string" where
  "dec_nat n = (if n < 10 then [''0123456789'' ! n]
                else dec_nat (n div 10) @ [''0123456789'' ! (n mod 10)])"

declare dec_nat.simps [simp del]

definition dec_int :: "int \<Rightarrow> string" where
  "dec_int i = (if i < 0 then CHR ''-'' # dec_nat (nat (- i)) else dec_nat (nat i))"

definition join :: "string \<Rightarrow> string list \<Rightarrow> string" where
  "join sep xs = (case xs of [] \<Rightarrow> [] | y # ys \<Rightarrow> y @ concat (map (\<lambda>z. sep @ z) ys))"

text \<open>
  \<^verbatim>\<open>"%s" % v\<close>, the \<^verbatim>\<open>str()\<close> of a value. A list prints its items quoted; an
  uploaded file prints as its name.
\<close>

fun py_str :: "val \<Rightarrow> string" where
  "py_str VNone = ''None''"
| "py_str (VBool b) = (if b then ''True'' else ''False'')"
| "py_str (VInt i) = dec_int i"
| "py_str (VStr s) = s"
| "py_str (VList xs) = ''['' @ join '', '' (map (\<lambda>x. [CHR 0x27] @ x @ [CHR 0x27]) xs) @ '']''"
| "py_str (VFile f) = f"

definition is_space :: "char \<Rightarrow> bool" where
  "is_space c = (c \<in> set [CHR '' '', CHR 0x09, CHR 0x0A, CHR 0x0B, CHR 0x0C, CHR 0x0D])"

text \<open>\<^verbatim>\<open>s.strip()\<close> of a byte string: the six ASCII white-space characters go.\<close>

definition strip :: "string \<Rightarrow> string" where
  "strip s = rev (dropWhile is_space (rev (dropWhile is_space s)))"

text \<open>\<^verbatim>\<open>s.split(" ")\<close>: an explicit separator keeps empty items.\<close>

fun split_char :: "char \<Rightarrow> string \<Rightarrow> string list" where
  "split_char c [] = [[]]"
| "split_char c (x # xs) =
     (if x = c then [] # split_char c xs
      else (case split_char c xs of [] \<Rightarrow> [[x]] | w # ws \<Rightarrow> (x # w) # ws))"

text \<open>\<^verbatim>\<open>sep.join([a, b])\<close> of two values: TypeError unless both are strings.\<close>

definition join_vals :: "string \<Rightarrow> val \<Rightarrow> val \<Rightarrow> error + string" where
  "join_vals sep a b =
     (case (a, b) of (VStr x, VStr y) \<Rightarrow> Inr (join sep [x, y]) | _ \<Rightarrow> Inl TypeError)"

text \<open>\<^verbatim>\<open>x in v\<close> for a string \<open>x\<close>: list membership, substring of a string, TypeError otherwise.\<close>

fun py_in :: "string \<Rightarrow> val \<Rightarrow> error + bool" where
  "py_in x (VList xs) = Inr (x \<in> set xs)"
| "py_in x (VStr s) = Inr (sublist x s)"
| "py_in x v = Inl TypeError"

text \<open>\<^verbatim>\<open>enumerate(xs)\<close>\<close>

definition enumerate_from0 :: "'a list \<Rightarrow> (nat \<times> 'a) list" where
  "enumerate_from0 xs = zip [0 ..< length xs] xs"

section \<open>The Patch: \<^verbatim>\<open>foris.nuci.modules.uci_raw\<close>\<close>

text \<open>
  Modelled from the spec: the classes \<^verbatim>\<open>Uci\<close>, \<^verbatim>\<open>Config\<close>, \<^verbatim>\<open>Section\<close>,
  \<^verbatim>\<open>Option\<close>, \<^verbatim>\<open>List\<close> and \<^verbatim>\<open>Value\<close> of \<^verbatim>\<open>foris.nuci.modules.uci_raw\<close> are
  defined outside this module. A Patch is a tree of configs, sections and, per section, an ordered
  list of operations: \<^verbatim>\<open>add\<close> is a set (\<open>Merge\<close>), \<^verbatim>\<open>add_removal\<close> a remove and
  \<^verbatim>\<open>add_replace\<close> a full replace of the child. Children appear in the order of the calls
  that added them; a child filled after it was added (the objects are shared) appears
  filled. A constructor keeps the Python value it was given.
\<close>

datatype uci_value = Value nat val

datatype element = Option string val | List string "uci_value list"

datatype operation = Merge | Remove | Replace

datatype uci_section =
  Section (sec_name: val) (sec_type: string) (sec_anonymous: bool)
          (sec_children: "(operation \<times> element) list")

datatype config = Config (cfg_name: string) (cfg_sections: "uci_section list")

datatype uci = Uci (uci_configs: "config list")

definition values_of :: "string list \<Rightarrow> uci_value list" where
  "values_of xs = map (\<lambda>(i, x). Value i (VStr x)) (enumerate_from0 xs)"

section \<open>The configuration snapshot and the external client\<close>

text \<open>
  Modelled from the spec: the value tree returned by \<^verbatim>\<open>client.get\<close> and its
  \<^verbatim>\<open>find_child\<close> are code of \<^verbatim>\<open>foris.nuci\<close>, outside this module. The spec gives path
  lookup that returns the first matching node or signals absence and never raises, so a
  snapshot is its lookup function. A node found is an object: in a condition it counts as true
  whatever its value, and \<^verbatim>\<open>if node:\<close> tests presence, as the module uses it for sections
  (\<^verbatim>\<open>if fakes_section:\<close>) and options alike.
\<close>

datatype node = Node (node_name: string) (node_value: "string option")

type_synonym value_tree = "string \<Rightarrow> node option"

datatype effect =
    SetPassword string val
  | SetTime val
  | CheckUpdates
  | LoadConfigBackup string

datatype payload = Patch uci | Result "(string \<times> val) list" | Nothing

type_synonym cb_result = "string \<times> payload"

type_synonym callback = "data \<Rightarrow> error + (cb_result \<times> effect list)"

record channel =
  number :: int
  frequency :: int
  disabled :: bool

record card =
  channels :: "channel list"

record pkg_list_item =
  pkg_name :: string
  pkg_title :: string
  pkg_description :: string

text \<open>
  What a request reads from outside the module: \<^verbatim>\<open>pbkdf2.crypt(word, salt, iterations)\<close>
  of the beaker library (with no salt it draws one itself), the backup loader's answer, the
  snapshot behind \<^verbatim>\<open>filters.foris_config\<close>, the snapshot the form was built from, the
  wireless cards of the \<^verbatim>\<open>stats\<close> node and the package lists of the \<^verbatim>\<open>updater\<close> node (each
  \<open>None\<close> when \<^verbatim>\<open>find_child\<close> finds no such node).
\<close>

record env =
  crypt :: "val \<Rightarrow> string option \<Rightarrow> nat option \<Rightarrow> error + string"
  load_config_backup :: "string \<Rightarrow> val"
  foris_config :: value_tree
  nuci_config :: value_tree
  stats :: "card list option"
  updater :: "pkg_list_item list option"

section \<open>The save callbacks\<close>

text \<open>
  Each callback is the closure its handler's \<^verbatim>\<open>get_form\<close> registers; the variables it
  closes over are parameters. A result is the action tag with its payload, and the calls
  made on the external client. Log records are not modelled.
\<close>

subsection \<open>PasswordHandler\<close>

definition pw_form_cb :: "env \<Rightarrow> bool \<Rightarrow> callback" where
  "pw_form_cb E change data =
     bind_err
       (if change then
          (case foris_config E ''uci.foris.auth.password'' of
             None \<Rightarrow> Inr False
           | Some password_hash \<Rightarrow>
               bind_err (getitem data ''old_password'') (\<lambda>old_password.
               bind_err (crypt E old_password (node_value password_hash) None) (\<lambda>h.
               Inr (node_value password_hash \<noteq> Some h))))
        else Inr False)
       (\<lambda>wrong_old_password.
          if wrong_old_password
          then Inr ((''save_result'', Result [(''wrong_old_password'', VBool True)]), [])
          else
            bind_err (getitem data ''password'') (\<lambda>password.
            bind_err (crypt E password None (Some 1000)) (\<lambda>new_password_hash.
            bind_err (getitem data ''set_system_pw'') (\<lambda>set_system_pw.
            Inr ((''edit_config'',
                  Patch (Uci [Config ''foris''
                    [Section (VStr ''auth'') ''config'' False
                       [(Merge, Option ''password'' (VStr new_password_hash))]]])),
                 if is_True set_system_pw then [SetPassword ''root'' password] else [])))))"

subsection \<open>WanHandler\<close>

text \<open>The branch on the protocol: the options of the \<^verbatim>\<open>wan\<close> section and \<^verbatim>\<open>ucollect_ifname\<close>.\<close>

definition wan_proto_ops :: "data \<Rightarrow> val \<Rightarrow> error + ((operation \<times> element) list \<times> string)" where
  "wan_proto_ops data proto =
     (if proto = VStr ''pppoe'' then
        bind_err (getitem data ''username'') (\<lambda>username.
        bind_err (getitem data ''password'') (\<lambda>password.
        bind_err (getitem data ''ppp_ipv6'') (\<lambda>ppp_ipv6.
        Inr ([(Merge, Option ''username'' username),
              (Merge, Option ''password'' password),
              (Merge, Option ''ipv6'' ppp_ipv6)], ''pppoe-wan''))))
      else if proto = VStr ''static'' then
        bind_err (getitem data ''ipaddr'') (\<lambda>ipaddr.
        bind_err (getitem data ''netmask'') (\<lambda>netmask.
        bind_err (getitem data ''gateway'') (\<lambda>gateway.
        bind_err (join_vals '' '' (get_default data ''dns1'' (VStr []))
                                  (get_default data ''dns2'' (VStr []))) (\<lambda>joined.
        bind_err
          (if is_True (get_default data ''static_ipv6'' VNone) then
             bind_err (getitem data ''ip6addr'') (\<lambda>ip6addr.
             bind_err (getitem data ''ip6gw'') (\<lambda>ip6gw.
             bind_err (getitem data ''ip6prefix'') (\<lambda>ip6prefix.
             Inr [(Merge, Option ''ip6addr'' ip6addr),
                  (Merge, Option ''ip6gw'' ip6gw),
                  (Merge, Option ''ip6prefix'' ip6prefix)])))
           else
             Inr [(Remove, Option ''ip6addr'' VNone),
                  (Remove, Option ''ip6gw'' VNone),
                  (Remove, Option ''ip6prefix'' VNone)])
          (\<lambda>ip6_ops.
        Inr ([(Merge, Option ''ipaddr'' ipaddr),
              (Merge, Option ''netmask'' netmask),
              (Merge, Option ''gateway'' gateway),
              (Merge, Option ''dns'' (VStr (strip joined)))] @ ip6_ops, ''eth2''))))))
      else Inr ([], ''eth2''))"

text \<open>The \<^verbatim>\<open>if has_smrtd:\<close> block: the \<^verbatim>\<open>smrtd\<close> config and \<^verbatim>\<open>wan_ifname\<close>.\<close>

definition wan_smrtd :: "data \<Rightarrow> config \<times> string" where
  "wan_smrtd data =
     (let use_smrt = get_default data ''use_smrt'' (VBool False);
          smrt_vlan = (if truthy use_smrt \<and> \<not> truthy (get_default data ''smrt_vlan'' VNone)
                       then VStr ''848'' else get_default data ''smrt_vlan'' VNone);
          wan_ifname = (if truthy use_smrt then ''eth2'' @ ''.'' @ py_str smrt_vlan else ''eth2'');
          vpi = get_default data ''smrt_vpi'' VNone;
          vci = get_default data ''smrt_vci'' VNone;
          connections =
            (if truthy vpi \<and> truthy vci then
               [(Merge, List ''connections''
                   [Value 1 (VStr (py_str smrt_vlan @ '' '' @ py_str vpi @ '' '' @ py_str vci))])]
             else if truthy use_smrt then [(Remove, List ''connections'' [])]
             else [])
      in (Config ''smrtd''
            [Section (VStr ''eth2'') ''interface'' False
               ((Merge, Option ''name'' (VStr ''eth2'')) # connections),
             Section (VStr ''global'') ''global'' False [(Merge, Option ''enabled'' use_smrt)]],
          wan_ifname))"

definition wan_form_cb :: "env \<Rightarrow> bool \<Rightarrow> callback" where
  "wan_form_cb E has_smrtd data =
     bind_err (getitem data ''proto'') (\<lambda>proto.
     bind_err (getitem data ''custom_mac'') (\<lambda>custom_mac.
     bind_err
       (if is_True custom_mac
        then bind_err (getitem data ''macaddr'') (\<lambda>macaddr. Inr (Merge, Option ''macaddr'' macaddr))
        else Inr (Remove, Option ''macaddr'' VNone)) (\<lambda>mac_op.
     bind_err (wan_proto_ops data proto) (\<lambda>(proto_ops, ucollect_ifname).
     let smrtd = (if has_smrtd then [fst (wan_smrtd data)] else []);
         ifname = (if has_smrtd then [(Merge, Option ''ifname'' (VStr (snd (wan_smrtd data))))] else []);
         interface_if_name =
           (case nuci_config E ''uci.ucollect.@interface[0]'' of
              None \<Rightarrow> VNone | Some ucollect_interface0 \<Rightarrow> VStr (node_name ucollect_interface0))
     in Inr ((''edit_config'',
              Patch (Uci ([Config ''network''
                             [Section (VStr ''wan'') ''interface'' False
                                ([(Merge, Option ''proto'' proto), mac_op] @ proto_ops @ ifname)]]
                          @ smrtd
                          @ [Config ''ucollect''
                               [Section interface_if_name ''interface'' True
                                  [(Merge, Option ''ifname'' (VStr ucollect_ifname))]]]))),
             [])))))"

subsection \<open>DNSHandler, TimeHandler, LanHandler\<close>

definition dns_form_cb :: callback where
  "dns_form_cb data =
     bind_err (getitem data ''forward_upstream'') (\<lambda>forward_upstream.
     Inr ((''edit_config'',
           Patch (Uci [Config ''unbound''
             [Section (VStr ''server'') ''unbound'' False
                [(Merge, Option ''forward_upstream'' forward_upstream)]]])), []))"

definition time_form_cb :: callback where
  "time_form_cb data =
     bind_err (getitem data ''time'') (\<lambda>t. Inr ((''none'', Nothing), [SetTime t]))"

definition lan_form_cb :: callback where
  "lan_form_cb data =
     bind_err (getitem data ''lan_ipaddr'') (\<lambda>lan_ipaddr.
     bind_err (case lan_ipaddr of VStr s \<Rightarrow> Inr (''6,'' @ s) | _ \<Rightarrow> Inl TypeError) (\<lambda>dhcp_option.
     bind_err (getitem data ''dhcp_enabled'') (\<lambda>dhcp_enabled.
     bind_err
       (if truthy dhcp_enabled then
          bind_err (getitem data ''dhcp_min'') (\<lambda>dhcp_min.
          bind_err (getitem data ''dhcp_max'') (\<lambda>dhcp_max.
          Inr [(Merge, Option ''ignore'' (VStr ''0'')),
               (Merge, Option ''start'' dhcp_min),
               (Merge, Option ''limit'' dhcp_max)]))
        else Inr [(Merge, Option ''ignore'' (VStr ''1''))]) (\<lambda>dhcp_ops.
     Inr ((''edit_config'',
           Patch (Uci [Config ''dhcp''
                         [Section (VStr ''lan'') ''dhcp'' False
                            ((Replace, List ''dhcp_option'' [Value 0 (VStr dhcp_option)]) # dhcp_ops)],
                       Config ''network''
                         [Section (VStr ''lan'') ''interface'' False
                            [(Merge, Option ''ipaddr'' lan_ipaddr)]]])), [])))))"

subsection \<open>WifiHandler\<close>

definition wifi_form_cb :: callback where
  "wifi_form_cb data =
     bind_err (getitem data ''iface_section'') (\<lambda>iface_section.
     bind_err (getitem data ''wifi_enabled'') (\<lambda>wifi_enabled.
     bind_err
       (if truthy wifi_enabled then
          bind_err (getitem data ''ssid'') (\<lambda>ssid.
          bind_err (getitem data ''ssid_hidden'') (\<lambda>ssid_hidden.
          bind_err (getitem data ''key'') (\<lambda>key.
          let channel =
                (if truthy (get_default data ''channel2g4'' VNone)
                 then get_default data ''channel2g4'' VNone
                 else if truthy (get_default data ''channel5g'' VNone)
                 then get_default data ''channel5g'' VNone
                 else VStr ''auto'');
              hwmode = get_default data ''hwmode'' VNone
          in
          bind_err (getitem data ''htmode'') (\<lambda>htmode.
          Inr ([(Merge, Option ''ssid'' ssid),
                (Merge, Option ''hidden'' ssid_hidden),
                (Merge, Option ''encryption'' (VStr ''psk2+tkip+aes'')),
                (Merge, Option ''key'' key)],
               (if truthy hwmode then [(Merge, Option ''hwmode'' hwmode)] else [])
               @ [(Merge, Option ''htmode'' htmode),
                  (Merge, Option ''channel'' channel)])))))
        else Inr ([], [])) (\<lambda>(iface_ops, device_ops).
     Inr ((''edit_config'',
           Patch (Uci [Config ''wireless''
             [Section iface_section ''wifi-iface'' False
                ((Merge, Option ''disabled'' (VBool (\<not> truthy wifi_enabled))) # iface_ops),
              Section (VStr ''radio0'') ''wifi-device'' False
                ((Merge, Option ''disabled'' (VBool (\<not> truthy wifi_enabled))) # device_ops)]])),
          []))))"

subsection \<open>SystemPasswordHandler, MaintenanceHandler\<close>

definition system_pw_form_cb :: callback where
  "system_pw_form_cb data =
     bind_err (getitem data ''password'') (\<lambda>password.
     Inr ((''none'', Nothing), [SetPassword ''root'' password]))"

text \<open>\<^verbatim>\<open>data['backup_file'].file\<close>: only an upload has the attribute.\<close>

definition maintenance_form_cb :: "env \<Rightarrow> callback" where
  "maintenance_form_cb E data =
     bind_err (getitem data ''backup_file'') (\<lambda>backup_file.
     bind_err (case backup_file of VFile f \<Rightarrow> Inr f | _ \<Rightarrow> Inl AttributeError) (\<lambda>f.
     Inr ((''save_result'', Result [(''new_ip'', load_config_backup E f)]),
          [LoadConfigBackup f])))"

subsection \<open>NotificationsHandler\<close>

definition notifications_form_cb :: callback where
  "notifications_form_cb data =
     bind_err (getitem data ''enable_smtp'') (\<lambda>enable_smtp.
     bind_err (getitem data ''reboot_time'') (\<lambda>reboot_time.
     bind_err (getitem data ''delay'') (\<lambda>delay.
     bind_err
       (if truthy enable_smtp then
          bind_err (getitem data ''use_turris_smtp'') (\<lambda>use_turris_smtp.
          bind_err
            (if use_turris_smtp = VStr ''0'' then
               bind_err (getitem data ''server'') (\<lambda>server.
               bind_err (getitem data ''port'') (\<lambda>port.
               bind_err (getitem data ''username'') (\<lambda>username.
               bind_err (getitem data ''password'') (\<lambda>password.
               bind_err (getitem data ''security'') (\<lambda>security.
               bind_err (getitem data ''from'') (\<lambda>from.
               Inr [(Merge, Option ''server'' server),
                    (Merge, Option ''port'' port),
                    (Merge, Option ''username'' username),
                    (Merge, Option ''password'' password),
                    (Merge, Option ''security'' security),
                    (Merge, Option ''from'' from)]))))))
             else
               bind_err (getitem data ''sender_name'') (\<lambda>sender_name.
               Inr [(Merge, Option ''sender_name'' sender_name)])) (\<lambda>provider_ops.
          bind_err (getitem data ''to'') (\<lambda>to.
          bind_err (case to of VStr s \<Rightarrow> Inr (split_char CHR '' '' s)
                    | _ \<Rightarrow> Inl AttributeError) (\<lambda>to_items.
          bind_err (getitem data ''severity'') (\<lambda>severity.
          bind_err (getitem data ''news'') (\<lambda>news.
          Inr ([(Merge, Option ''use_turris_smtp'' use_turris_smtp)] @ provider_ops
               @ [(Replace, List ''to''
                     (map (\<lambda>(i, to_item). Value i (VStr to_item))
                        (filter (\<lambda>(i, to_item). to_item \<noteq> []) (enumerate_from0 to_items))))],
               [Section (VStr ''notifications'') ''notifications'' False
                  [(Merge, Option ''severity'' severity),
                   (Merge, Option ''news'' news)]])))))))
        else Inr ([], [])) (\<lambda>(smtp_ops, notifications).
     Inr ((''edit_config'',
           Patch (Uci [Config ''user_notify''
             ([Section (VStr ''smtp'') ''smtp'' False
                 ((Merge, Option ''enable'' enable_smtp) # smtp_ops),
               Section (VStr ''reboot'') ''reboot'' False
                 [(Merge, Option ''time'' reboot_time),
                  (Merge, Option ''delay'' delay)]]
              @ notifications)])),
          [])))))"

subsection \<open>UpdaterHandler\<close>

text \<open>The loop over \<^verbatim>\<open>data.iteritems()\<close>: the names \<^verbatim>\<open>k[8:]\<close> of the checked \<^verbatim>\<open>install_\<close> fields.\<close>

definition selected_lists :: "data \<Rightarrow> string list" where
  "selected_lists data =
     map (\<lambda>(k, v). drop 8 k) (filter (\<lambda>(k, v). truthy v \<and> prefix ''install_'' k) (iteritems data))"

definition package_lists_form_cb :: callback where
  "package_lists_form_cb data =
     (let lists = List ''lists'' (values_of (selected_lists data))
      in Inr ((''edit_config'',
               Patch (Uci [Config ''updater''
                 [Section (VStr ''pkglists'') ''pkglists'' False
                    [if length (selected_lists data) = 0 then (Remove, lists)
                     else (Replace, lists)]]])),
              []))"

definition package_lists_run_updater_cb :: callback where
  "package_lists_run_updater_cb data = Inr ((''none'', Nothing), [CheckUpdates])"

subsection \<open>UcollectHandler\<close>

definition SERVICES_OPTIONS :: "(string \<times> string) list" where
  "SERVICES_OPTIONS = [(''23tcp'', ''Telnet (23/TCP)'')]"

text \<open>
  \<^verbatim>\<open>[x[0] for x in SERVICES_OPTIONS if x[0] not in data['services']]\<close>: the condition, and
  with it the lookup of \<^verbatim>\<open>services\<close>, is evaluated once per option.
\<close>

fun disabled_services_of :: "(string \<times> string) list \<Rightarrow> data \<Rightarrow> error + string list" where
  "disabled_services_of [] data = Inr []"
| "disabled_services_of (x # xs) data =
     bind_err (getitem data ''services'') (\<lambda>services.
     bind_err (py_in (fst x) services) (\<lambda>selected.
     bind_err (disabled_services_of xs data) (\<lambda>rest.
     Inr (if \<not> selected then fst x # rest else rest))))"

definition ucollect_form_cb :: "env \<Rightarrow> callback" where
  "ucollect_form_cb E data =
     bind_err (disabled_services_of SERVICES_OPTIONS data) (\<lambda>disabled_services.
     let disable = List ''disable'' (values_of disabled_services);
         disable_ops =
           (if length disabled_services \<noteq> 0 then [(Replace, disable)]
            else (case nuci_config E ''uci.ucollect.fakes'' of
                    None \<Rightarrow> []
                  | Some fakes_section \<Rightarrow> [(Remove, disable)]))
     in
     bind_err (getitem data ''log_credentials'') (\<lambda>log_credentials.
     Inr ((''edit_config'',
           Patch (Uci [Config ''ucollect''
             [Section (VStr ''fakes'') ''fakes'' False
                (disable_ops @ [(Merge, Option ''log_credentials'' log_credentials)])]])),
          [])))"

section \<open>Forms: \<^verbatim>\<open>foris.fapi\<close>\<close>

text \<open>
  Modelled from the spec: \<^verbatim>\<open>fapi.ForisForm\<close>, its sections and the field classes of
  \<^verbatim>\<open>foris.form\<close> are defined outside this module. A form has a name, the submitted input (or
  none), an ordered list of sections, an ordered list of callbacks and a validity flag; a
  section is a named, ordered list of fields; a field has a name, the path it is read from, a
  default, whether it is required, its choices and the sibling values it requires. Labels,
  hints, value transforms and validators are left out.
\<close>

datatype widget =
  File | Password | Textbox | Dropdown | Checkbox | Hidden | Radio | Number | Email | Time
  | MultiCheckbox

record field =
  f_kind :: widget
  f_name :: string
  f_nuci_path :: "string option"
  f_default :: val
  f_required :: bool
  f_args :: "val list"
  f_requires :: "(string \<times> val) list"

record form_section =
  s_name :: string
  s_fields :: "field list"

record form =
  form_name :: string
  form_data :: "data option"
  form_sections :: "form_section list"
  callbacks :: "callback list"
  valid :: bool

text \<open>\<^verbatim>\<open>fapi.ForisForm(name, data)\<close>, \<^verbatim>\<open>add_section\<close>, \<^verbatim>\<open>add_field\<close>, \<^verbatim>\<open>add_callback\<close>.\<close>

definition ForisForm :: "string \<Rightarrow> data option \<Rightarrow> form" where
  "ForisForm n d =
     \<lparr>form_name = n, form_data = d, form_sections = [], callbacks = [], valid = False\<rparr>"

definition add_section :: "string \<Rightarrow> field list \<Rightarrow> form \<Rightarrow> form" where
  "add_section n fs f = f\<lparr>form_sections := form_sections f @ [\<lparr>s_name = n, s_fields = fs\<rparr>]\<rparr>"

definition add_callback :: "callback \<Rightarrow> form \<Rightarrow> form" where
  "add_callback cb f = f\<lparr>callbacks := callbacks f @ [cb]\<rparr>"

definition fld :: "widget \<Rightarrow> string \<Rightarrow> field" where
  "fld k n = \<lparr>f_kind = k, f_name = n, f_nuci_path = None, f_default = VNone,
              f_required = False, f_args = [], f_requires = []\<rparr>"

section \<open>The handlers' forms\<close>

definition password_get_form :: "env \<Rightarrow> bool \<Rightarrow> data option \<Rightarrow> form" where
  "password_get_form E change d =
     add_callback (pw_form_cb E change)
       (add_section ''set_password''
          ((if change then [fld Password ''old_password''] else [])
           @ [(fld Password ''password'')\<lparr>f_required := True\<rparr>,
              (fld Password ''password_validation'')\<lparr>f_required := True\<rparr>,
              fld Checkbox ''set_system_pw''])
          (ForisForm ''password'' d))"

definition wan_smrtd_fields :: "field list" where
  "wan_smrtd_fields =
     [(fld Hidden ''has_smrtd'')\<lparr>f_default := VStr ''1''\<rparr>,
      (fld Checkbox ''use_smrt'')
        \<lparr>f_nuci_path := Some ''uci.smrtd.global.enabled'',
         f_requires := [(''proto'', VStr ''pppoe'')]\<rparr>,
      (fld Textbox ''smrt_vlan'')\<lparr>f_requires := [(''use_smrt'', VBool True)]\<rparr>,
      (fld Textbox ''smrt_vpi'')
        \<lparr>f_nuci_path := Some ''uci.smrtd.eth2.connections'',
         f_requires := [(''use_smrt'', VBool True)]\<rparr>,
      (fld Textbox ''smrt_vci'')
        \<lparr>f_nuci_path := Some ''uci.smrtd.eth2.connections'',
         f_requires := [(''use_smrt'', VBool True)]\<rparr>]"

definition wan_get_form :: "env \<Rightarrow> data option \<Rightarrow> form" where
  "wan_get_form E d =
     (let static = [(''proto'', VStr ''static'')];
          static6 = [(''proto'', VStr ''static''), (''static_ipv6'', VBool True)];
          pppoe = [(''proto'', VStr ''pppoe'')];
          has_smrtd = (nuci_config E ''uci.smrtd'' \<noteq> None)
      in
      add_callback (wan_form_cb E has_smrtd)
        (add_section ''set_wan''
           ([(fld Dropdown ''proto'')
               \<lparr>f_nuci_path := Some ''uci.network.wan.proto'', f_default := VStr ''dhcp'',
                f_args := [VStr ''dhcp'', VStr ''static'', VStr ''pppoe'']\<rparr>,
             (fld Textbox ''ipaddr'')
               \<lparr>f_nuci_path := Some ''uci.network.wan.ipaddr'', f_required := True,
                f_requires := static\<rparr>,
             (fld Textbox ''netmask'')
               \<lparr>f_nuci_path := Some ''uci.network.wan.netmask'', f_required := True,
                f_requires := static\<rparr>,
             (fld Textbox ''gateway'')
               \<lparr>f_nuci_path := Some ''uci.network.wan.gateway'', f_required := True,
                f_requires := static\<rparr>,
             (fld Textbox ''dns1'')
               \<lparr>f_nuci_path := Some ''uci.network.wan.dns'', f_requires := static\<rparr>,
             (fld Textbox ''dns2'')
               \<lparr>f_nuci_path := Some ''uci.network.wan.dns'', f_requires := static\<rparr>,
             (fld Checkbox ''static_ipv6'')
               \<lparr>f_nuci_path := Some ''uci.network.wan.ip6addr'', f_requires := static\<rparr>,
             (fld Textbox ''ip6addr'')
               \<lparr>f_nuci_path := Some ''uci.network.wan.ip6addr'', f_required := True,
                f_requires := static6\<rparr>,
             (fld Textbox ''ip6gw'')
               \<lparr>f_nuci_path := Some ''uci.network.wan.ip6gw'', f_requires := static6\<rparr>,
             (fld Textbox ''ip6prefix'')
               \<lparr>f_nuci_path := Some ''uci.network.wan.ip6prefix'', f_requires := static6\<rparr>,
             (fld Textbox ''username'')
               \<lparr>f_nuci_path := Some ''uci.network.wan.username'', f_requires := pppoe\<rparr>,
             (fld Textbox ''password'')
               \<lparr>f_nuci_path := Some ''uci.network.wan.password'', f_requires := pppoe\<rparr>,
             (fld Checkbox ''ppp_ipv6'')
               \<lparr>f_nuci_path := Some ''uci.network.wan.ipv6'', f_requires := pppoe\<rparr>]
            @ (if has_smrtd then wan_smrtd_fields else [])
            @ [(fld Checkbox ''custom_mac'')\<lparr>f_nuci_path := Some ''uci.network.wan.macaddr''\<rparr>,
               (fld Textbox ''macaddr'')
                 \<lparr>f_nuci_path := Some ''uci.network.wan.macaddr'', f_required := True,
                  f_requires := [(''custom_mac'', VBool True)]\<rparr>])
           (ForisForm ''wan'' d)))"

definition dns_get_form :: "data option \<Rightarrow> form" where
  "dns_get_form d =
     add_callback dns_form_cb
       (add_section ''set_dns''
          [(fld Checkbox ''forward_upstream'')
             \<lparr>f_nuci_path := Some ''uci.unbound.server.forward_upstream'',
              f_default := VBool True\<rparr>]
          (ForisForm ''dns'' d))"

definition time_get_form :: "data option \<Rightarrow> form" where
  "time_get_form d =
     add_callback time_form_cb
       (add_section ''set_time''
          [(fld Textbox ''time'')\<lparr>f_nuci_path := Some ''time''\<rparr>]
          (ForisForm ''time'' d))"

definition lan_get_form :: "data option \<Rightarrow> form" where
  "lan_get_form d =
     add_callback lan_form_cb
       (add_section ''set_lan''
          [(fld Textbox ''lan_ipaddr'')\<lparr>f_nuci_path := Some ''uci.network.lan.ipaddr''\<rparr>,
           (fld Checkbox ''dhcp_enabled'')
             \<lparr>f_nuci_path := Some ''uci.dhcp.lan.ignore'', f_default := VBool True\<rparr>,
           (fld Textbox ''dhcp_min'')
             \<lparr>f_nuci_path := Some ''uci.dhcp.lan.start'',
              f_requires := [(''dhcp_enabled'', VBool True)]\<rparr>,
           (fld Textbox ''dhcp_max'')
             \<lparr>f_nuci_path := Some ''uci.dhcp.lan.limit'',
              f_requires := [(''dhcp_enabled'', VBool True)]\<rparr>]
          (ForisForm ''lan'' d))"

definition system_password_get_form :: "data option \<Rightarrow> form" where
  "system_password_get_form d =
     add_callback system_pw_form_cb
       (add_section ''set_password''
          [(fld Password ''password'')\<lparr>f_required := True\<rparr>,
           (fld Password ''password_validation'')\<lparr>f_required := True\<rparr>]
          (ForisForm ''system_password'' d))"

definition maintenance_get_form :: "env \<Rightarrow> data option \<Rightarrow> form" where
  "maintenance_get_form E d =
     add_callback (maintenance_form_cb E)
       (add_section ''restore_backup''
          [(fld File ''backup_file'')\<lparr>f_required := True\<rparr>]
          (ForisForm ''maintenance'' d))"

subsection \<open>WifiHandler\<close>

text \<open>
  The loop over the first card's channels: the enabled channels below 2500 MHz after the
  \<^verbatim>\<open>auto\<close> entry, and the enabled channels from 2500 MHz on.
\<close>

definition channels_2g4 :: "card \<Rightarrow> val list" where
  "channels_2g4 c =
     VStr ''auto'' #
     map (\<lambda>ch. VStr (dec_int (number ch)))
       (filter (\<lambda>ch. \<not> disabled ch \<and> frequency ch < 2500) (channels c))"

definition channels_5g :: "card \<Rightarrow> val list" where
  "channels_5g c =
     map (\<lambda>ch. VStr (dec_int (number ch)))
       (filter (\<lambda>ch. \<not> disabled ch \<and> \<not> frequency ch < 2500) (channels c))"

definition wifi_fields :: "card \<Rightarrow> field list" where
  "wifi_fields c =
     (let enabled = [(''wifi_enabled'', VBool True)];
          is_dual_band = (length (channels_2g4 c) > 1 \<and> length (channels_5g c) > 1)
      in
      [(fld Hidden ''iface_section'')\<lparr>f_nuci_path := Some ''uci.wireless.@wifi-iface[0]''\<rparr>,
       (fld Checkbox ''wifi_enabled'')
         \<lparr>f_nuci_path := Some ''uci.wireless.@wifi-iface[0].disabled'',
          f_default := VBool True\<rparr>,
       (fld Textbox ''ssid'')
         \<lparr>f_nuci_path := Some ''uci.wireless.@wifi-iface[0].ssid'', f_required := True,
          f_requires := enabled\<rparr>,
       (fld Checkbox ''ssid_hidden'')
         \<lparr>f_nuci_path := Some ''uci.wireless.@wifi-iface[0].hidden'',
          f_default := VBool False, f_requires := enabled\<rparr>]
      @ (if is_dual_band then
           [(fld Radio ''hwmode'')
              \<lparr>f_nuci_path := Some ''uci.wireless.radio0.hwmode'', f_default := VStr ''11ng'',
               f_args := [VStr ''11g'', VStr ''11a''], f_requires := enabled\<rparr>]
         else [])
      @ [(fld Dropdown ''htmode'')
           \<lparr>f_nuci_path := Some ''uci.wireless.radio0.htmode'',
            f_args := [VStr ''NOHT'', VStr ''HT20'', VStr ''HT40''], f_requires := enabled\<rparr>]
      @ (if length (channels_2g4 c) > 1 then
           [(fld Dropdown ''channel2g4'')
              \<lparr>f_nuci_path := Some ''uci.wireless.radio0.channel'',
               f_default := hd (channels_2g4 c), f_args := channels_2g4 c,
               f_requires := (if is_dual_band then [(''hwmode'', VStr ''11g'')] else [])\<rparr>]
         else [])
      @ (if length (channels_5g c) > 1 then
           [(fld Dropdown ''channel5g'')
              \<lparr>f_nuci_path := Some ''uci.wireless.radio0.channel'',
               f_default := hd (channels_5g c), f_args := channels_5g c,
               f_requires := (if is_dual_band then [(''hwmode'', VStr ''11a'')] else [])\<rparr>]
         else [])
      @ [(fld Password ''key'')
           \<lparr>f_nuci_path := Some ''uci.wireless.@wifi-iface[0].key'', f_required := True,
            f_requires := enabled\<rparr>])"

text \<open>
  \<^verbatim>\<open>stats.data['wireless-cards']\<close> on a missing \<^verbatim>\<open>stats\<close> node is an attribute access on
  \<^verbatim>\<open>None\<close>. With fewer than one card the method returns \<^verbatim>\<open>None\<close> before any form exists.
\<close>

definition wifi_get_form :: "env \<Rightarrow> data option \<Rightarrow> error + form option" where
  "wifi_get_form E d =
     (case stats E of
        None \<Rightarrow> Inl AttributeError
      | Some wireless_cards \<Rightarrow>
          if length wireless_cards < 1 then Inr None
          else Inr (Some (add_callback wifi_form_cb
                     (add_section ''set_wifi'' (wifi_fields (hd wireless_cards))
                        (ForisForm ''wifi'' d)))))"

subsection \<open>NotificationsHandler\<close>

definition notifications_get_form :: "data option \<Rightarrow> form" where
  "notifications_get_form d =
     (let smtp_on = [(''enable_smtp'', VBool True)];
          custom = [(''enable_smtp'', VBool True), (''use_turris_smtp'', VStr ''0'')]
      in
      add_callback notifications_form_cb
        (add_section ''reboot''
           [(fld Number ''delay'')
              \<lparr>f_nuci_path := Some ''uci.user_notify.reboot.delay'', f_required := True\<rparr>,
            (fld Time ''reboot_time'')
              \<lparr>f_nuci_path := Some ''uci.user_notify.reboot.time'', f_required := True\<rparr>]
        (add_section ''smtp''
           [(fld Email ''from'')
              \<lparr>f_nuci_path := Some ''uci.user_notify.smtp.from'', f_required := True,
               f_requires := custom\<rparr>,
            (fld Textbox ''server'')
              \<lparr>f_nuci_path := Some ''uci.user_notify.smtp.server'', f_required := True,
               f_requires := custom\<rparr>,
            (fld Number ''port'')
              \<lparr>f_nuci_path := Some ''uci.user_notify.smtp.port'', f_required := True,
               f_requires := custom\<rparr>,
            (fld Dropdown ''security'')
              \<lparr>f_nuci_path := Some ''uci.user_notify.smtp.security'',
               f_default := VStr ''none'',
               f_args := [VStr ''none'', VStr ''ssl'', VStr ''starttls''],
               f_requires := custom\<rparr>,
            (fld Textbox ''username'')
              \<lparr>f_nuci_path := Some ''uci.user_notify.smtp.username'', f_requires := custom\<rparr>,
            (fld Password ''password'')
              \<lparr>f_nuci_path := Some ''uci.user_notify.smtp.password'', f_requires := custom\<rparr>]
        (add_section ''notifications''
           [(fld Checkbox ''enable_smtp'')
              \<lparr>f_nuci_path := Some ''uci.user_notify.smtp.enable'', f_default := VBool False\<rparr>,
            (fld Radio ''use_turris_smtp'')
              \<lparr>f_nuci_path := Some ''uci.user_notify.smtp.use_turris_smtp'',
               f_default := VStr ''0'', f_args := [VStr ''1'', VStr ''0''],
               f_requires := smtp_on\<rparr>,
            (fld Textbox ''to'')
              \<lparr>f_nuci_path := Some ''uci.user_notify.smtp.to'', f_required := True,
               f_requires := smtp_on\<rparr>,
            (fld Textbox ''sender_name'')
              \<lparr>f_nuci_path := Some ''uci.user_notify.smtp.sender_name'', f_required := True,
               f_requires := [(''enable_smtp'', VBool True), (''use_turris_smtp'', VStr ''1'')]\<rparr>,
            (fld Dropdown ''severity'')
              \<lparr>f_nuci_path := Some ''uci.user_notify.notifications.severity'',
               f_default := VInt 1, f_args := [VInt 1, VInt 2, VInt 3],
               f_requires := smtp_on\<rparr>,
            (fld Checkbox ''news'')
              \<lparr>f_nuci_path := Some ''uci.user_notify.notifications.news'',
               f_default := VBool False, f_requires := smtp_on\<rparr>]
        (ForisForm ''notifications'' d)))))"

subsection \<open>UpdaterHandler, UcollectHandler\<close>

definition updater_get_form :: "env \<Rightarrow> data option \<Rightarrow> error + form option" where
  "updater_get_form E d =
     (case updater E of
        None \<Rightarrow> Inl AttributeError
      | Some pkg_list \<Rightarrow>
          Inr (Some (add_callback package_lists_run_updater_cb
                (add_callback package_lists_form_cb
                  (add_section ''select_package_lists''
                     (map (\<lambda>pkg_list_item.
                             (fld Checkbox (''install_'' @ pkg_name pkg_list_item))
                               \<lparr>f_nuci_path := Some ''uci.updater.pkglists.lists''\<rparr>)
                        pkg_list)
                     (ForisForm ''package_lists'' d))))))"

definition ucollect_get_form :: "env \<Rightarrow> data option \<Rightarrow> form" where
  "ucollect_get_form E d =
     add_callback (ucollect_form_cb E)
       (add_section ''fakes''
          [(fld MultiCheckbox ''services'')
             \<lparr>f_nuci_path := Some ''uci.ucollect.fakes.disable'',
              f_default := VList (map fst SERVICES_OPTIONS),
              f_args := map (\<lambda>x. VStr (fst x)) SERVICES_OPTIONS\<rparr>,
           (fld Checkbox ''log_credentials'')
             \<lparr>f_nuci_path := Some ''uci.ucollect.fakes.log_credentials''\<rparr>]
          (ForisForm ''ucollect'' d))"

section \<open>BaseConfigHandler\<close>

datatype handler_class =
    PasswordHandler bool
  | WanHandler
  | DNSHandler
  | TimeHandler
  | LanHandler
  | WifiHandler
  | SystemPasswordHandler
  | MaintenanceHandler
  | NotificationsHandler
  | UpdaterHandler
  | UcollectHandler

text \<open>\<^verbatim>\<open>get_form\<close>, dispatched on the class; \<open>PasswordHandler\<close> carries its \<^verbatim>\<open>change\<close> flag.\<close>

fun get_form :: "env \<Rightarrow> handler_class \<Rightarrow> data option \<Rightarrow> error + form option" where
  "get_form E (PasswordHandler change) d = Inr (Some (password_get_form E change d))"
| "get_form E WanHandler d = Inr (Some (wan_get_form E d))"
| "get_form E DNSHandler d = Inr (Some (dns_get_form d))"
| "get_form E TimeHandler d = Inr (Some (time_get_form d))"
| "get_form E LanHandler d = Inr (Some (lan_get_form d))"
| "get_form E WifiHandler d = wifi_get_form E d"
| "get_form E SystemPasswordHandler d = Inr (Some (system_password_get_form d))"
| "get_form E MaintenanceHandler d = Inr (Some (maintenance_get_form E d))"
| "get_form E NotificationsHandler d = Inr (Some (notifications_get_form d))"
| "get_form E UpdaterHandler d = updater_get_form E d"
| "get_form E UcollectHandler d = Inr (Some (ucollect_get_form E d))"

record handler =
  cls :: handler_class
  data :: "data option"
  form_cache :: "form option"

text \<open>\<^verbatim>\<open>BaseConfigHandler(data)\<close>\<close>

definition new_handler :: "handler_class \<Rightarrow> data option \<Rightarrow> handler" where
  "new_handler c d = \<lparr>cls = c, data = d, form_cache = None\<rparr>"

text \<open>The \<^verbatim>\<open>form\<close> property: builds the form once and keeps it.\<close>

definition form_property :: "env \<Rightarrow> handler \<Rightarrow> error + (form option \<times> handler)" where
  "form_property E h =
     (case form_cache h of
        None \<Rightarrow>
          bind_err (get_form E (cls h) (data h)) (\<lambda>f. Inr (f, h\<lparr>form_cache := f\<rparr>))
      | Some f \<Rightarrow> Inr (Some f, h))"

text \<open>
  Modelled from the spec: \<^verbatim>\<open>ForisForm.validate\<close> and \<^verbatim>\<open>ForisForm.save\<close> are defined
  outside this module. Validation is the parameter \<open>V\<close>, the verdict of the validation
  engine on a form; \<^verbatim>\<open>validate\<close> stores it in the flag. \<^verbatim>\<open>save\<close> runs the callbacks in registration order on
  the submitted data; a callback that raises ends the run, and what ran before it stays done.
  The data handed to the callbacks are the submitted input as it is: values that the form
  would fill in from the configuration or from a field's default are not added.
\<close>

definition form_validate :: "(form \<Rightarrow> bool) \<Rightarrow> form \<Rightarrow> form" where
  "form_validate V f = f\<lparr>valid := V f\<rparr>"

fun run_callbacks :: "callback list \<Rightarrow> data \<Rightarrow> cb_result list \<times> effect list \<times> error option" where
  "run_callbacks [] d = ([], [], None)"
| "run_callbacks (cb # cbs) d =
     (case cb d of
        Inl e \<Rightarrow> ([], [], Some e)
      | Inr (r, fx) \<Rightarrow>
          (case run_callbacks cbs d of (rs, fxs, err) \<Rightarrow> (r # rs, fx @ fxs, err)))"

definition submitted :: "form \<Rightarrow> data" where
  "submitted f = (case form_data f of None \<Rightarrow> [] | Some d \<Rightarrow> d)"

definition form_save :: "form \<Rightarrow> cb_result list \<times> effect list \<times> error option" where
  "form_save f = run_callbacks (callbacks f) (submitted f)"

text \<open>
  What a call of \<^verbatim>\<open>save\<close> leaves behind: what it returned or raised, the results of the
  callbacks that ran, the calls they made on the client, and the handler with its form.
\<close>

record save_outcome =
  returned :: "error + bool"
  invoked :: "cb_result list"
  effects :: "effect list"
  handler_after :: handler

definition save :: "(form \<Rightarrow> bool) \<Rightarrow> env \<Rightarrow> handler \<Rightarrow> callback list \<Rightarrow> save_outcome" where
  "save V E h extra_callbacks =
     (case form_property E h of
        Inl e \<Rightarrow> \<lparr>returned = Inl e, invoked = [], effects = [], handler_after = h\<rparr>
      | Inr (None, h1) \<Rightarrow>
          \<lparr>returned = Inl AttributeError, invoked = [], effects = [], handler_after = h1\<rparr>
      | Inr (Some form0, h1) \<Rightarrow>
          (let form1 = form_validate V form0;
               form2 = fold add_callback extra_callbacks form1;
               h2 = h1\<lparr>form_cache := Some form2\<rparr>
           in if valid form2 then
                (case form_save form2 of
                   (rs, fxs, None) \<Rightarrow>
                     \<lparr>returned = Inr True, invoked = rs, effects = fxs, handler_after = h2\<rparr>
                 | (rs, fxs, Some e) \<Rightarrow>
                     \<lparr>returned = Inl e, invoked = rs, effects = fxs, handler_after = h2\<rparr>)
              else \<lparr>returned = Inr False, invoked = [], effects = [], handler_after = h2\<rparr>))"

text \<open>
  Counting Patches: a callback result that asks for \<^verbatim>\<open>edit_config\<close>, and a callback that
  returns such a result on given data.
\<close>

definition is_edit_config :: "cb_result \<Rightarrow> bool" where
  "is_edit_config r = (fst r = ''edit_config'')"

definition returns_edit_config :: "callback \<Rightarrow> data \<Rightarrow> bool" where
  "returns_edit_config cb x = (case cb x of Inl e \<Rightarrow> False | Inr (r, fx) \<Rightarrow> is_edit_config r)"

section \<open>A concrete environment\<close>

text \<open>
  A stand-in for \<^verbatim>\<open>pbkdf2.crypt\<close>, to run the callbacks on concrete inputs: the hash of a
  word is the scheme tag followed by the word, whatever the salt. It keeps what the examples
  rely on: a hash is never empty, hashing a word with its own hash as salt gives that hash
  back, and a word that is not a string is refused.
\<close>

definition sample_crypt :: "val \<Rightarrow> string option \<Rightarrow> nat option \<Rightarrow> error + string" where
  "sample_crypt word salt iterations =
     (case word of VStr w \<Rightarrow> Inr (''$p5k2$'' @ w) | _ \<Rightarrow> Inl TypeError)"

definition sample_env :: env where
  "sample_env =
     \<lparr>crypt = sample_crypt,
      load_config_backup = (\<lambda>f. VNone),
      foris_config = map_of [(''uci.foris.auth.password'', Node ''password'' (Some ''$p5k2$secret''))],
      nuci_config = map_of [(''uci.ucollect.fakes'', Node ''fakes'' None)],
      stats = Some [\<lparr>channels = [\<lparr>number = 1, frequency = 2412, disabled = False\<rparr>]\<rparr>],
      updater = Some [\<lparr>pkg_name = ''nas'', pkg_title = ''NAS'', pkg_description = ''Storage''\<rparr>]\<rparr>"

section \<open>Running the callbacks\<close>

lemma run_callbacks_all_return:
  "list_all2 (\<lambda>cb out. cb d = Inr out) cbs outs \<Longrightarrow>
   run_callbacks cbs d = (map fst outs, concat (map snd outs), None)"
  by (induction cbs outs rule: list_all2_induct) (auto split: prod.splits)

lemma callbacks_fold_add_callback:
  "callbacks (fold add_callback extra f) = callbacks f @ extra"
  by (induction extra arbitrary: f) (simp_all add: add_callback_def)

lemma form_data_fold_add_callback:
  "form_data (fold add_callback extra f) = form_data f"
  by (induction extra arbitrary: f) (simp_all add: add_callback_def)

lemma valid_fold_add_callback:
  "valid (fold add_callback extra f) = valid f"
  by (induction extra arbitrary: f) (simp_all add: add_callback_def)

text \<open>
  C1. Whatever the handler, once its form exists: when validation succeeds and every
  callback returns, \<^verbatim>\<open>save\<close> returns True and the callbacks have run in registration order,
  the handler's own first and the extra ones after them; when validation fails, \<^verbatim>\<open>save\<close>
  returns False and no callback has run. So a callback runs only after a successful validation.
\<close>

theorem save_runs_callbacks_only_when_valid:
  assumes "form_property E h = Inr (Some f, h1)"
  shows "(V f \<longrightarrow>
            (\<forall>outs. list_all2 (\<lambda>cb out. cb (submitted f) = Inr out) (callbacks f @ extra) outs \<longrightarrow>
               returned (save V E h extra) = Inr True \<and>
               invoked (save V E h extra) = map fst outs \<and>
               effects (save V E h extra) = concat (map snd outs)))
       \<and> (\<not> V f \<longrightarrow>
            returned (save V E h extra) = Inr False \<and>
            invoked (save V E h extra) = [] \<and>
            effects (save V E h extra) = [])
       \<and> (returned (save V E h extra) = Inr True \<longrightarrow> V f)
       \<and> (invoked (save V E h extra) \<noteq> [] \<or> effects (save V E h extra) \<noteq> [] \<longrightarrow> V f)"
proof -
  let ?f2 = "fold add_callback extra (form_validate V f)"
  have v: "valid ?f2 = V f"
    by (simp add: valid_fold_add_callback form_validate_def)
  have c: "callbacks ?f2 = callbacks f @ extra"
    by (simp add: callbacks_fold_add_callback form_validate_def)
  have d: "submitted ?f2 = submitted f"
    by (simp add: submitted_def form_data_fold_add_callback form_validate_def)
  have fs: "form_save ?f2 = run_callbacks (callbacks f @ extra) (submitted f)"
    by (simp add: form_save_def c d)
  show ?thesis
  proof (cases "V f")
    case False
    then show ?thesis using assms v by (simp add: save_def Let_def)
  next
    case True
    have ok: "returned (save V E h extra) = Inr True \<and>
              invoked (save V E h extra) = map fst outs \<and>
              effects (save V E h extra) = concat (map snd outs)"
      if "list_all2 (\<lambda>cb out. cb (submitted f) = Inr out) (callbacks f @ extra) outs" for outs
      using assms v True fs run_callbacks_all_return [OF that]
      by (simp add: save_def Let_def)
    with True show ?thesis by blast
  qed
qed

theorem save_runs_callbacks_only_when_valid_witness:
  "returned (save (\<lambda>f. True) sample_env
      (new_handler DNSHandler (Some [(''forward_upstream'', VBool True)]))
      [package_lists_run_updater_cb]) = Inr True
   \<and> invoked (save (\<lambda>f. True) sample_env
      (new_handler DNSHandler (Some [(''forward_upstream'', VBool True)]))
      [package_lists_run_updater_cb])
     = [(''edit_config'',
         Patch (Uci [Config ''unbound''
           [Section (VStr ''server'') ''unbound'' False
              [(Merge, Option ''forward_upstream'' (VBool True))]]])),
        (''none'', Nothing)]
   \<and> effects (save (\<lambda>f. True) sample_env
      (new_handler DNSHandler (Some [(''forward_upstream'', VBool True)]))
      [package_lists_run_updater_cb]) = [CheckUpdates]
   \<and> returned (save (\<lambda>f. False) sample_env
      (new_handler DNSHandler (Some [(''forward_upstream'', VBool True)]))
      [package_lists_run_updater_cb]) = Inr False
   \<and> invoked (save (\<lambda>f. False) sample_env
      (new_handler DNSHandler (Some [(''forward_upstream'', VBool True)]))
      [package_lists_run_updater_cb]) = []"
proof -
  let ?d = "[(''forward_upstream'', VBool True)]"
  let ?h = "new_handler DNSHandler (Some ?d)"
  let ?f = "dns_get_form (Some ?d)"
  let ?outs = "[((''edit_config'',
         Patch (Uci [Config ''unbound''
           [Section (VStr ''server'') ''unbound'' False
              [(Merge, Option ''forward_upstream'' (VBool True))]]])), []),
        ((''none'', Nothing), [CheckUpdates])]"
  have fp: "form_property sample_env ?h = Inr (Some ?f, ?h\<lparr>form_cache := Some ?f\<rparr>)"
    by (simp add: form_property_def new_handler_def bind_err_def)
  have sub: "submitted ?f = ?d"
    by (simp add: submitted_def dns_get_form_def add_callback_def add_section_def ForisForm_def)
  have cbs: "callbacks ?f = [dns_form_cb]"
    by (simp add: dns_get_form_def add_callback_def add_section_def ForisForm_def)
  have la: "list_all2 (\<lambda>cb out. cb (submitted ?f) = Inr out)
              (callbacks ?f @ [package_lists_run_updater_cb]) ?outs"
    by (simp add: sub cbs dns_form_cb_def package_lists_run_updater_cb_def getitem_def bind_err_def)
  from save_runs_callbacks_only_when_valid [OF fp, of "\<lambda>f. True" "[package_lists_run_updater_cb]"]
       save_runs_callbacks_only_when_valid [OF fp, of "\<lambda>f. False" "[package_lists_run_updater_cb]"]
       la
  show ?thesis by simp
qed

section \<open>UpdaterHandler: the package lists\<close>

lemma iteritems_member:
  "((k, v) \<in> set (iteritems d)) = (map_of d k = Some v)"
proof -
  have "distinct (map fst (AList.clearjunk d))" by (rule AList.distinct_clearjunk)
  then have "(map_of (AList.clearjunk d) k = Some v) = ((k, v) \<in> set (AList.clearjunk d))"
    by (rule map_of_eq_Some_iff)
  then show ?thesis by (simp add: iteritems_def AList.map_of_clearjunk)
qed

lemma install_name_inj:
  "prefix ''install_'' k \<Longrightarrow> prefix ''install_'' k' \<Longrightarrow> drop 8 k = drop 8 k' \<Longrightarrow> k = k'"
  by (auto simp: prefix_def)

lemma selected_lists_set:
  "set (selected_lists d) =
     {drop 8 k | k v. map_of d k = Some v \<and> truthy v \<and> prefix ''install_'' k}"
  by (auto simp: selected_lists_def iteritems_member [symmetric] image_iff)

lemma selected_lists_distinct: "distinct (selected_lists d)"
proof -
  let ?sel = "filter (\<lambda>(k, v). truthy v \<and> prefix ''install_'' k) (iteritems d)"
  have dk: "distinct (map fst ?sel)"
    using AList.distinct_clearjunk [of d] by (simp add: iteritems_def distinct_map_filter)
  have inj: "inj_on (drop 8) (set (map fst ?sel))"
    by (rule inj_onI) (auto intro: install_name_inj)
  have "distinct (map (drop 8) (map fst ?sel))"
    by (subst distinct_map) (use dk inj in blast)
  moreover have "map (drop 8) (map fst ?sel) = selected_lists d"
    by (simp add: selected_lists_def case_prod_beta comp_def)
  ultimately show ?thesis by simp
qed

lemma values_of_contents:
  "map (\<lambda>x. case x of Value i c \<Rightarrow> c) (values_of xs) = map VStr xs"
proof -
  have "map snd (zip [0 ..< length xs] xs) = xs" by (simp add: map_snd_zip)
  then have "map VStr (map snd (zip [0 ..< length xs] xs)) = map VStr xs" by simp
  then show ?thesis
    by (simp add: values_of_def enumerate_from0_def case_prod_beta comp_def del: map_snd_zip)
qed

text \<open>
  C2. For every submitted data set the UpdaterHandler callback returns \<^verbatim>\<open>edit_config\<close> with
  one operation on the list \<^verbatim>\<open>lists\<close> of \<^verbatim>\<open>uci.updater.pkglists\<close>: a full replace when at
  least one package list is selected, a removal of the list when none is; it is never a set of
  an option. The values of the list are exactly the names of the checked \<^verbatim>\<open>install_\<close>
  fields, each once.
\<close>

theorem package_lists_form_cb_replaces_or_removes:
  "package_lists_form_cb d =
     Inr ((''edit_config'',
           Patch (Uci [Config ''updater''
             [Section (VStr ''pkglists'') ''pkglists'' False
                [(if selected_lists d = [] then Remove else Replace,
                  List ''lists'' (values_of (selected_lists d)))]]])), [])
   \<and> set (selected_lists d) =
       {drop 8 k | k v. map_of d k = Some v \<and> truthy v \<and> prefix ''install_'' k}
   \<and> distinct (selected_lists d)
   \<and> map (\<lambda>x. case x of Value i c \<Rightarrow> c) (values_of (selected_lists d))
       = map VStr (selected_lists d)"
  by (simp add: package_lists_form_cb_def Let_def selected_lists_set selected_lists_distinct
      values_of_contents)

theorem package_lists_form_cb_replaces_or_removes_witness:
  "package_lists_form_cb
     [(''install_nas'', VBool True), (''install_luci'', VBool False), (''lang'', VStr ''cs'')]
   = Inr ((''edit_config'',
           Patch (Uci [Config ''updater''
             [Section (VStr ''pkglists'') ''pkglists'' False
                [(Replace, List ''lists'' [Value 0 (VStr ''nas'')])]]])), [])
   \<and> package_lists_form_cb [(''install_nas'', VBool False)]
   = Inr ((''edit_config'',
           Patch (Uci [Config ''updater''
             [Section (VStr ''pkglists'') ''pkglists'' False
                [(Remove, List ''lists'' [])]]])), [])"
proof -
  have a: "selected_lists
     [(''install_nas'', VBool True), (''install_luci'', VBool False), (''lang'', VStr ''cs'')]
     = [''nas'']"
    by (simp add: selected_lists_def iteritems_def AList.delete_eq)
  have b: "selected_lists [(''install_nas'', VBool False)] = []"
    by (simp add: selected_lists_def iteritems_def AList.delete_eq)
  have c: "values_of [''nas''] = [Value 0 (VStr ''nas'')]" "values_of [] = []"
    by (simp_all add: values_of_def enumerate_from0_def)
  from package_lists_form_cb_replaces_or_removes
         [of "[(''install_nas'', VBool True), (''install_luci'', VBool False),
               (''lang'', VStr ''cs'')]"]
       package_lists_form_cb_replaces_or_removes [of "[(''install_nas'', VBool False)]"]
  show ?thesis by (simp add: a b c)
qed

section \<open>PasswordHandler: changing the password\<close>

text \<open>
  C3. In change mode, with a stored hash at \<^verbatim>\<open>uci.foris.auth.password\<close>: when the hash of
  the submitted old password, salted with the stored hash, differs from the stored hash, the
  callback returns \<^verbatim>\<open>save_result\<close> with \<^verbatim>\<open>wrong_old_password\<close> and no Patch; when it
  equals the stored hash, the callback returns \<^verbatim>\<open>edit_config\<close> with a Patch that sets option
  \<^verbatim>\<open>password\<close> of section \<^verbatim>\<open>auth\<close> of config \<^verbatim>\<open>foris\<close> to the hash of the new password.
\<close>

theorem pw_form_cb_checks_old_password:
  assumes "foris_config E ''uci.foris.auth.password'' = Some (Node n (Some stored))"
    and "map_of d ''old_password'' = Some old"
    and "crypt E old (Some stored) None = Inr h"
  shows "(h \<noteq> stored \<longrightarrow>
            pw_form_cb E True d =
              Inr ((''save_result'', Result [(''wrong_old_password'', VBool True)]), []))
       \<and> (h = stored \<longrightarrow>
            (\<forall>pw nh s.
               map_of d ''password'' = Some pw \<and>
               crypt E pw None (Some 1000) = Inr nh \<and>
               map_of d ''set_system_pw'' = Some s \<longrightarrow>
               pw_form_cb E True d =
                 Inr ((''edit_config'',
                       Patch (Uci [Config ''foris''
                         [Section (VStr ''auth'') ''config'' False
                            [(Merge, Option ''password'' (VStr nh))]]])),
                      if s = VBool True then [SetPassword ''root'' pw] else [])))"
  using assms by (simp add: pw_form_cb_def bind_err_def getitem_def is_True_def)

theorem pw_form_cb_checks_old_password_witness:
  "pw_form_cb sample_env True
     [(''old_password'', VStr ''guess''), (''password'', VStr ''abcdef''),
      (''password_validation'', VStr ''abcdef''), (''set_system_pw'', VBool False)]
   = Inr ((''save_result'', Result [(''wrong_old_password'', VBool True)]), [])
   \<and> pw_form_cb sample_env True
     [(''old_password'', VStr ''secret''), (''password'', VStr ''abcdef''),
      (''password_validation'', VStr ''abcdef''), (''set_system_pw'', VBool True)]
   = Inr ((''edit_config'',
           Patch (Uci [Config ''foris''
             [Section (VStr ''auth'') ''config'' False
                [(Merge, Option ''password'' (VStr ''$p5k2$abcdef''))]]])),
          [SetPassword ''root'' (VStr ''abcdef'')])"
proof -
  have cfg: "foris_config sample_env ''uci.foris.auth.password''
               = Some (Node ''password'' (Some ''$p5k2$secret''))"
    by (simp add: sample_env_def)
  have c1: "crypt sample_env (VStr ''guess'') (Some ''$p5k2$secret'') None = Inr ''$p5k2$guess''"
    and c2: "crypt sample_env (VStr ''secret'') (Some ''$p5k2$secret'') None = Inr ''$p5k2$secret''"
    and c3: "crypt sample_env (VStr ''abcdef'') None (Some 1000) = Inr ''$p5k2$abcdef''"
    by (simp_all add: sample_env_def sample_crypt_def)
  from pw_form_cb_checks_old_password [OF cfg _ c1,
         of "[(''old_password'', VStr ''guess''), (''password'', VStr ''abcdef''),
              (''password_validation'', VStr ''abcdef''), (''set_system_pw'', VBool False)]"]
       pw_form_cb_checks_old_password [OF cfg _ c2,
         of "[(''old_password'', VStr ''secret''), (''password'', VStr ''abcdef''),
              (''password_validation'', VStr ''abcdef''), (''set_system_pw'', VBool True)]"]
       c3
  show ?thesis by simp
qed

text \<open>
  Without a node at \<^verbatim>\<open>uci.foris.auth.password\<close> the old-password check is skipped: the
  callback returns \<^verbatim>\<open>edit_config\<close> with the new password's hash, whatever old password was
  submitted, if any.
\<close>

lemma pw_form_cb_skips_check_without_hash_node:
  assumes "foris_config E ''uci.foris.auth.password'' = None"
    and "map_of d ''password'' = Some pw"
    and "crypt E pw None (Some 1000) = Inr nh"
    and "map_of d ''set_system_pw'' = Some s"
  shows "pw_form_cb E True d =
           Inr ((''edit_config'',
                 Patch (Uci [Config ''foris''
                   [Section (VStr ''auth'') ''config'' False
                      [(Merge, Option ''password'' (VStr nh))]]])),
                if s = VBool True then [SetPassword ''root'' pw] else [])"
  using assms by (simp add: pw_form_cb_def bind_err_def getitem_def is_True_def)

text \<open>
  C9. The claim, and the comment in the callback (\<^verbatim>\<open>allow changing the password if
  password_hash is empty\<close>), have the check skipped when the stored hash is empty. The callback
  tests the node it found before it takes the node's value, so with the option present and its
  value empty the check still runs: the old password is hashed with the empty salt, no hash is
  the empty string, and the callback returns \<^verbatim>\<open>save_result\<close> with \<^verbatim>\<open>wrong_old_password\<close>
  for every old password. No Patch is produced and the password cannot be changed.
\<close>

theorem pw_form_cb_empty_hash_still_checked:
  assumes "foris_config E ''uci.foris.auth.password'' = Some (Node n (Some []))"
    and "map_of d ''old_password'' = Some old"
    and "crypt E old (Some []) None = Inr h"
    and "h \<noteq> []"
  shows "pw_form_cb E True d =
           Inr ((''save_result'', Result [(''wrong_old_password'', VBool True)]), [])"
  using assms by (simp add: pw_form_cb_def bind_err_def getitem_def)

theorem pw_form_cb_empty_hash_still_checked_witness:
  "pw_form_cb
     (sample_env\<lparr>foris_config :=
        map_of [(''uci.foris.auth.password'', Node ''password'' (Some []))]\<rparr>)
     True
     [(''old_password'', VStr ''guess''), (''password'', VStr ''abcdef''),
      (''password_validation'', VStr ''abcdef''), (''set_system_pw'', VBool False)]
   = Inr ((''save_result'', Result [(''wrong_old_password'', VBool True)]), [])"
proof -
  let ?E = "sample_env\<lparr>foris_config :=
        map_of [(''uci.foris.auth.password'', Node ''password'' (Some []))]\<rparr>"
  have cfg: "foris_config ?E ''uci.foris.auth.password'' = Some (Node ''password'' (Some []))"
    by simp
  have c: "crypt ?E (VStr ''guess'') (Some []) None = Inr ''$p5k2$guess''"
    by (simp add: sample_env_def sample_crypt_def)
  from pw_form_cb_empty_hash_still_checked [OF cfg _ c,
         of "[(''old_password'', VStr ''guess''), (''password'', VStr ''abcdef''),
              (''password_validation'', VStr ''abcdef''), (''set_system_pw'', VBool False)]"]
  show ?thesis by simp
qed

section \<open>WanHandler: a static address without DNS servers\<close>

lemma strip_single_space: "strip (join '' '' [[], []]) = []"
  by (simp add: strip_def join_def is_space_def)

lemma get_default_absent_or_empty:
  "map_of d k = None \<or> map_of d k = Some (VStr []) \<Longrightarrow> get_default d k (VStr []) = VStr []"
  by (auto simp: get_default_def)

text \<open>
  C4. For the WanHandler callback on data with \<^verbatim>\<open>proto\<close> static, the three addresses given,
  both dns fields empty or absent and \<^verbatim>\<open>static_ipv6\<close> not true: the Patch sets \<^verbatim>\<open>proto\<close>,
  \<^verbatim>\<open>ipaddr\<close>, \<^verbatim>\<open>netmask\<close> and \<^verbatim>\<open>gateway\<close> to the submitted values, sets \<^verbatim>\<open>dns\<close> to
  the empty string, and removes \<^verbatim>\<open>ip6addr\<close>, \<^verbatim>\<open>ip6gw\<close> and \<^verbatim>\<open>ip6prefix\<close>. The data
  carry \<^verbatim>\<open>custom_mac\<close>, and \<^verbatim>\<open>macaddr\<close> when that is true, as validated data do.
\<close>

theorem wan_form_cb_static_without_dns:
  assumes "map_of d ''proto'' = Some (VStr ''static'')"
    and "map_of d ''ipaddr'' = Some ipaddr"
    and "map_of d ''netmask'' = Some netmask"
    and "map_of d ''gateway'' = Some gateway"
    and "map_of d ''dns1'' = None \<or> map_of d ''dns1'' = Some (VStr [])"
    and "map_of d ''dns2'' = None \<or> map_of d ''dns2'' = Some (VStr [])"
    and "map_of d ''static_ipv6'' \<noteq> Some (VBool True)"
    and "map_of d ''custom_mac'' = Some custom_mac"
    and "custom_mac = VBool True \<longrightarrow> map_of d ''macaddr'' = Some macaddr"
  shows "\<exists>rest.
           wan_form_cb E has_smrtd d =
             Inr ((''edit_config'',
                   Patch (Uci (Config ''network''
                     [Section (VStr ''wan'') ''interface'' False
                        ([(Merge, Option ''proto'' (VStr ''static'')),
                          (if custom_mac = VBool True then (Merge, Option ''macaddr'' macaddr)
                           else (Remove, Option ''macaddr'' VNone)),
                          (Merge, Option ''ipaddr'' ipaddr),
                          (Merge, Option ''netmask'' netmask),
                          (Merge, Option ''gateway'' gateway),
                          (Merge, Option ''dns'' (VStr [])),
                          (Remove, Option ''ip6addr'' VNone),
                          (Remove, Option ''ip6gw'' VNone),
                          (Remove, Option ''ip6prefix'' VNone)]
                         @ (if has_smrtd
                            then [(Merge, Option ''ifname'' (VStr (snd (wan_smrtd d))))]
                            else []))] # rest))), [])"
proof -
  have v6: "\<not> is_True (get_default d ''static_ipv6'' VNone)"
    using assms(7) by (auto simp: is_True_def get_default_def split: option.splits)
  have j: "join_vals '' '' (get_default d ''dns1'' (VStr [])) (get_default d ''dns2'' (VStr []))
             = Inr (join '' '' [[], []])"
    using assms(5,6) by (simp add: get_default_absent_or_empty join_vals_def)
  have p: "wan_proto_ops d (VStr ''static'') =
             Inr ([(Merge, Option ''ipaddr'' ipaddr),
                   (Merge, Option ''netmask'' netmask),
                   (Merge, Option ''gateway'' gateway),
                   (Merge, Option ''dns'' (VStr [])),
                   (Remove, Option ''ip6addr'' VNone),
                   (Remove, Option ''ip6gw'' VNone),
                   (Remove, Option ''ip6prefix'' VNone)], ''eth2'')"
    using assms(2,3,4) v6
    by (simp add: wan_proto_ops_def bind_err_def getitem_def j strip_single_space)
  show ?thesis
    using assms(1,8,9)
    by (simp add: wan_form_cb_def bind_err_def getitem_def p is_True_def Let_def)
qed

theorem wan_form_cb_static_without_dns_witness:
  "wan_form_cb sample_env False
     [(''proto'', VStr ''static''), (''ipaddr'', VStr ''192.0.2.1''),
      (''netmask'', VStr ''255.255.255.0''), (''gateway'', VStr ''192.0.2.254''),
      (''dns1'', VStr ''''), (''static_ipv6'', VBool False), (''custom_mac'', VBool False)]
   = Inr ((''edit_config'',
           Patch (Uci [Config ''network''
                         [Section (VStr ''wan'') ''interface'' False
                            [(Merge, Option ''proto'' (VStr ''static'')),
                             (Remove, Option ''macaddr'' VNone),
                             (Merge, Option ''ipaddr'' (VStr ''192.0.2.1'')),
                             (Merge, Option ''netmask'' (VStr ''255.255.255.0'')),
                             (Merge, Option ''gateway'' (VStr ''192.0.2.254'')),
                             (Merge, Option ''dns'' (VStr '''')),
                             (Remove, Option ''ip6addr'' VNone),
                             (Remove, Option ''ip6gw'' VNone),
                             (Remove, Option ''ip6prefix'' VNone)]],
                       Config ''ucollect''
                         [Section VNone ''interface'' True
                            [(Merge, Option ''ifname'' (VStr ''eth2''))]]])), [])"
proof -
  let ?d = "[(''proto'', VStr ''static''), (''ipaddr'', VStr ''192.0.2.1''),
      (''netmask'', VStr ''255.255.255.0''), (''gateway'', VStr ''192.0.2.254''),
      (''dns1'', VStr ''''), (''static_ipv6'', VBool False), (''custom_mac'', VBool False)]"
  from wan_form_cb_static_without_dns
         [of ?d "VStr ''192.0.2.1''" "VStr ''255.255.255.0''" "VStr ''192.0.2.254''"
             "VBool False" VNone sample_env False]
  obtain rest where r: "wan_form_cb sample_env False ?d =
      Inr ((''edit_config'',
            Patch (Uci (Config ''network''
              [Section (VStr ''wan'') ''interface'' False
                 [(Merge, Option ''proto'' (VStr ''static'')),
                  (Remove, Option ''macaddr'' VNone),
                  (Merge, Option ''ipaddr'' (VStr ''192.0.2.1'')),
                  (Merge, Option ''netmask'' (VStr ''255.255.255.0'')),
                  (Merge, Option ''gateway'' (VStr ''192.0.2.254'')),
                  (Merge, Option ''dns'' (VStr '''')),
                  (Remove, Option ''ip6addr'' VNone),
                  (Remove, Option ''ip6gw'' VNone),
                  (Remove, Option ''ip6prefix'' VNone)]] # rest))), [])"
    by auto
  have "wan_form_cb sample_env False ?d =
      Inr ((''edit_config'',
            Patch (Uci (Config ''network''
              [Section (VStr ''wan'') ''interface'' False
                 [(Merge, Option ''proto'' (VStr ''static'')),
                  (Remove, Option ''macaddr'' VNone),
                  (Merge, Option ''ipaddr'' (VStr ''192.0.2.1'')),
                  (Merge, Option ''netmask'' (VStr ''255.255.255.0'')),
                  (Merge, Option ''gateway'' (VStr ''192.0.2.254'')),
                  (Merge, Option ''dns'' (VStr '''')),
                  (Remove, Option ''ip6addr'' VNone),
                  (Remove, Option ''ip6gw'' VNone),
                  (Remove, Option ''ip6prefix'' VNone)]] #
              [Config ''ucollect''
                 [Section VNone ''interface'' True
                    [(Merge, Option ''ifname'' (VStr ''eth2''))]]]))), [])"
    by (simp add: wan_form_cb_def wan_proto_ops_def bind_err_def getitem_def get_default_def
        join_vals_def join_def strip_def is_space_def is_True_def sample_env_def)
  with r show ?thesis by simp
qed

section \<open>WifiHandler: Wi-Fi switched off\<close>

text \<open>
  C5. With \<^verbatim>\<open>wifi_enabled\<close> false, the Patch of the WifiHandler callback sets option
  \<^verbatim>\<open>disabled\<close> to true in the wifi-iface section and in the \<^verbatim>\<open>radio0\<close> wifi-device section,
  and holds nothing else: no ssid, hidden, encryption, key, hwmode, htmode or channel option.
\<close>

theorem wifi_form_cb_disabled:
  assumes "map_of d ''iface_section'' = Some iface_section"
    and "map_of d ''wifi_enabled'' = Some (VBool False)"
  shows "wifi_form_cb d =
           Inr ((''edit_config'',
                 Patch (Uci [Config ''wireless''
                   [Section iface_section ''wifi-iface'' False
                      [(Merge, Option ''disabled'' (VBool True))],
                    Section (VStr ''radio0'') ''wifi-device'' False
                      [(Merge, Option ''disabled'' (VBool True))]]])), [])"
  using assms by (simp add: wifi_form_cb_def bind_err_def getitem_def)

theorem wifi_form_cb_disabled_witness:
  "wifi_form_cb
     [(''iface_section'', VStr ''cfg033579''), (''wifi_enabled'', VBool False),
      (''ssid'', VStr ''Turris''), (''key'', VStr ''12345678''), (''channel2g4'', VStr ''11'')]
   = Inr ((''edit_config'',
           Patch (Uci [Config ''wireless''
             [Section (VStr ''cfg033579'') ''wifi-iface'' False
                [(Merge, Option ''disabled'' (VBool True))],
              Section (VStr ''radio0'') ''wifi-device'' False
                [(Merge, Option ''disabled'' (VBool True))]]])), [])"
  using wifi_form_cb_disabled
    [of "[(''iface_section'', VStr ''cfg033579''), (''wifi_enabled'', VBool False),
          (''ssid'', VStr ''Turris''), (''key'', VStr ''12345678''), (''channel2g4'', VStr ''11'')]"
        "VStr ''cfg033579''"]
  by simp

section \<open>UcollectHandler: the list of disabled services\<close>

lemma disabled_services_of_list:
  "map_of d ''services'' = Some (VList sel) \<Longrightarrow>
   disabled_services_of opts d = Inr (filter (\<lambda>x. x \<notin> set sel) (map fst opts))"
  by (induction opts) (simp_all add: bind_err_def getitem_def)

text \<open>
  C6. For the UcollectHandler callback on data whose \<^verbatim>\<open>services\<close> is a list: when it holds
  every available service and the snapshot has a \<^verbatim>\<open>uci.ucollect.fakes\<close> section, the Patch
  removes the list \<^verbatim>\<open>disable\<close>; when a service is deselected, the Patch replaces the whole
  list \<^verbatim>\<open>disable\<close> with the deselected services. Neither is a set of an empty value.
\<close>

theorem ucollect_form_cb_disable_list:
  assumes "map_of d ''services'' = Some (VList sel)"
    and "map_of d ''log_credentials'' = Some log_credentials"
  shows "(set (map fst SERVICES_OPTIONS) \<subseteq> set sel \<and>
          nuci_config E ''uci.ucollect.fakes'' \<noteq> None \<longrightarrow>
            ucollect_form_cb E d =
              Inr ((''edit_config'',
                    Patch (Uci [Config ''ucollect''
                      [Section (VStr ''fakes'') ''fakes'' False
                         [(Remove, List ''disable'' []),
                          (Merge, Option ''log_credentials'' log_credentials)]]])), []))
       \<and> (\<not> set (map fst SERVICES_OPTIONS) \<subseteq> set sel \<longrightarrow>
            ucollect_form_cb E d =
              Inr ((''edit_config'',
                    Patch (Uci [Config ''ucollect''
                      [Section (VStr ''fakes'') ''fakes'' False
                         [(Replace, List ''disable''
                             (values_of (filter (\<lambda>x. x \<notin> set sel) (map fst SERVICES_OPTIONS)))),
                          (Merge, Option ''log_credentials'' log_credentials)]]])), []))"
proof -
  let ?dis = "filter (\<lambda>x. x \<notin> set sel) (map fst SERVICES_OPTIONS)"
  have e: "(?dis = []) = (set (map fst SERVICES_OPTIONS) \<subseteq> set sel)"
    by (auto simp: filter_empty_conv)
  have v: "values_of [] = []"
    by (simp add: values_of_def enumerate_from0_def)
  show ?thesis
  proof (cases "?dis = []")
    case True
    with e assms show ?thesis
      by (auto simp: ucollect_form_cb_def disabled_services_of_list bind_err_def getitem_def
          Let_def v)
  next
    case False
    with e assms show ?thesis
      by (auto simp: ucollect_form_cb_def disabled_services_of_list bind_err_def getitem_def
          Let_def)
  qed
qed

theorem ucollect_form_cb_disable_list_witness:
  "ucollect_form_cb sample_env [(''services'', VList [''23tcp'']), (''log_credentials'', VBool True)]
   = Inr ((''edit_config'',
           Patch (Uci [Config ''ucollect''
             [Section (VStr ''fakes'') ''fakes'' False
                [(Remove, List ''disable'' []),
                 (Merge, Option ''log_credentials'' (VBool True))]]])), [])
   \<and> ucollect_form_cb sample_env [(''services'', VList []), (''log_credentials'', VBool True)]
   = Inr ((''edit_config'',
           Patch (Uci [Config ''ucollect''
             [Section (VStr ''fakes'') ''fakes'' False
                [(Replace, List ''disable'' [Value 0 (VStr ''23tcp'')]),
                 (Merge, Option ''log_credentials'' (VBool True))]]])), [])"
proof -
  have v: "values_of [''23tcp''] = [Value 0 (VStr ''23tcp'')]"
    by (simp add: values_of_def enumerate_from0_def)
  from ucollect_form_cb_disable_list
         [of "[(''services'', VList [''23tcp'']), (''log_credentials'', VBool True)]"
             "[''23tcp'']" "VBool True" sample_env]
       ucollect_form_cb_disable_list
         [of "[(''services'', VList []), (''log_credentials'', VBool True)]"
             "[]" "VBool True" sample_env]
  show ?thesis by (simp add: SERVICES_OPTIONS_def sample_env_def v)
qed

section \<open>One Patch per handler\<close>

lemmas form_building = add_callback_def add_section_def ForisForm_def

lemma get_form_callbacks:
  "get_form E c d = Inr (Some f) \<Longrightarrow>
   callbacks f = [package_lists_form_cb, package_lists_run_updater_cb] \<or> length (callbacks f) = 1"
  by (cases c)
     (auto simp: form_building password_get_form_def wan_get_form_def dns_get_form_def
        time_get_form_def lan_get_form_def wifi_get_form_def system_password_get_form_def
        maintenance_get_form_def notifications_get_form_def updater_get_form_def
        ucollect_get_form_def Let_def split: option.splits if_splits)

lemma get_form_form_data:
  "get_form E c d = Inr (Some f) \<Longrightarrow> form_data f = d"
  by (cases c)
     (auto simp: form_building password_get_form_def wan_get_form_def dns_get_form_def
        time_get_form_def lan_get_form_def wifi_get_form_def system_password_get_form_def
        maintenance_get_form_def notifications_get_form_def updater_get_form_def
        ucollect_get_form_def Let_def split: option.splits if_splits)

lemma get_form_own_edit_config:
  assumes "get_form E c d = Inr (Some f)"
  shows "length (filter (\<lambda>cb. returns_edit_config cb x) (callbacks f)) \<le> 1"
proof -
  from get_form_callbacks [OF assms] show ?thesis
  proof
    assume "callbacks f = [package_lists_form_cb, package_lists_run_updater_cb]"
    then show ?thesis
      by (simp add: returns_edit_config_def is_edit_config_def package_lists_run_updater_cb_def)
  next
    assume one: "length (callbacks f) = 1"
    have "length (filter (\<lambda>cb. returns_edit_config cb x) (callbacks f)) \<le> length (callbacks f)"
      by (rule length_filter_le)
    with one show ?thesis by simp
  qed
qed

lemma run_callbacks_edit_config_le:
  "length (filter is_edit_config (fst (run_callbacks cbs x)))
     \<le> length (filter (\<lambda>cb. returns_edit_config cb x) cbs)"
proof (induction cbs)
  case Nil
  show ?case by simp
next
  case (Cons cb cbs)
  show ?case
  proof (cases "cb x")
    case (Inl e)
    then show ?thesis by simp
  next
    case (Inr out)
    obtain r fx where out: "out = (r, fx)" by (cases out)
    obtain rs fxs err where rest: "run_callbacks cbs x = (rs, fxs, err)"
      by (cases "run_callbacks cbs x")
    have head: "returns_edit_config cb x = is_edit_config r"
      using Inr out by (simp add: returns_edit_config_def)
    from Cons.IH rest have "length (filter is_edit_config rs)
        \<le> length (filter (\<lambda>cb. returns_edit_config cb x) cbs)"
      by simp
    with Inr out rest head show ?thesis by simp
  qed
qed

lemma save_invoked_fresh:
  "invoked (save V E (new_handler c d) extra) =
     (case get_form E c d of
        Inr (Some f) \<Rightarrow>
          if V f then fst (run_callbacks (callbacks f @ extra) (submitted f)) else []
      | _ \<Rightarrow> [])"
proof (cases "get_form E c d")
  case (Inl e)
  then show ?thesis by (simp add: save_def form_property_def new_handler_def bind_err_def)
next
  case (Inr fo)
  show ?thesis
  proof (cases fo)
    case None
    with Inr show ?thesis by (simp add: save_def form_property_def new_handler_def bind_err_def)
  next
    case (Some f)
    let ?f2 = "fold add_callback extra (form_validate V f)"
    have v: "valid ?f2 = V f"
      by (simp add: valid_fold_add_callback form_validate_def)
    have fs: "form_save ?f2 = run_callbacks (callbacks f @ extra) (submitted f)"
      by (simp add: form_save_def submitted_def callbacks_fold_add_callback
          form_data_fold_add_callback form_validate_def)
    from Inr Some v fs show ?thesis
      by (simp add: save_def form_property_def new_handler_def bind_err_def Let_def
          split: prod.splits option.splits)
  qed
qed

text \<open>
  C8. For every handler and every input, at most one of the callbacks the handler's
  \<^verbatim>\<open>get_form\<close> registers returns the action \<^verbatim>\<open>edit_config\<close> (every handler registers
  one callback, but UpdaterHandler, whose second callback returns \<^verbatim>\<open>none\<close>). So a request,
  one call of \<^verbatim>\<open>save\<close> on a handler made for it, yields at most one \<^verbatim>\<open>edit_config\<close> result
  when no extra callbacks are passed, and with extra callbacks at most one more than those of
  them that return \<^verbatim>\<open>edit_config\<close>: the handler's own callbacks account for at most one Patch.
\<close>

theorem at_most_one_edit_config_per_handler:
  "(\<forall>f x. get_form E c d = Inr (Some f) \<longrightarrow>
      length (filter (\<lambda>cb. \<exists>p fx. cb x = Inr ((''edit_config'', p), fx)) (callbacks f)) \<le> 1)
   \<and> length (filter is_edit_config (invoked (save V E (new_handler c d) []))) \<le> 1
   \<and> length (filter is_edit_config (invoked (save V E (new_handler c d) extra)))
       \<le> 1 + length (filter (\<lambda>cb. returns_edit_config cb (case d of None \<Rightarrow> [] | Some x \<Rightarrow> x))
                      extra)"
proof -
  have own: "length (filter (\<lambda>cb. \<exists>p fx. cb x = Inr ((''edit_config'', p), fx)) (callbacks f)) \<le> 1"
    if "get_form E c d = Inr (Some f)" for f x
  proof -
    have "(\<lambda>cb. \<exists>p fx. cb x = Inr ((''edit_config'', p), fx)) = (\<lambda>cb. returns_edit_config cb x)"
      by (rule ext) (auto simp: returns_edit_config_def is_edit_config_def split: sum.splits)
    with get_form_own_edit_config [OF that, of x] show ?thesis by simp
  qed
  have request: "length (filter is_edit_config (invoked (save V E (new_handler c d) ex)))
       \<le> 1 + length (filter (\<lambda>cb. returns_edit_config cb (case d of None \<Rightarrow> [] | Some x \<Rightarrow> x)) ex)"
    for ex
  proof (cases "\<exists>f. get_form E c d = Inr (Some f) \<and> V f")
    case False
    then show ?thesis
      by (auto simp: save_invoked_fresh split: sum.splits option.splits)
  next
    case True
    then obtain f where g: "get_form E c d = Inr (Some f)" and v: "V f" by blast
    have sub: "submitted f = (case d of None \<Rightarrow> [] | Some x \<Rightarrow> x)"
      using get_form_form_data [OF g] by (simp add: submitted_def)
    have "length (filter is_edit_config (invoked (save V E (new_handler c d) ex)))
            \<le> length (filter (\<lambda>cb. returns_edit_config cb (submitted f)) (callbacks f @ ex))"
      using g v run_callbacks_edit_config_le [of "callbacks f @ ex" "submitted f"]
      by (simp add: save_invoked_fresh)
    also have "\<dots> = length (filter (\<lambda>cb. returns_edit_config cb (submitted f)) (callbacks f))
                   + length (filter (\<lambda>cb. returns_edit_config cb (submitted f)) ex)"
      by simp
    also have "\<dots> \<le> 1 + length (filter (\<lambda>cb. returns_edit_config cb (submitted f)) ex)"
      using get_form_own_edit_config [OF g, of "submitted f"] by simp
    finally show ?thesis by (simp add: sub)
  qed
  from own request [of extra] request [of "[]"] show ?thesis by simp
qed


theorem at_most_one_edit_config_per_handler_witness:
  "map fst (invoked (save (\<lambda>f. True) sample_env
      (new_handler UpdaterHandler (Some [(''install_nas'', VBool True)])) []))
     = [''edit_config'', ''none'']
   \<and> length (filter is_edit_config (invoked (save (\<lambda>f. True) sample_env
      (new_handler UpdaterHandler (Some [(''install_nas'', VBool True)])) []))) \<le> 1
   \<and> length (filter is_edit_config (invoked (save (\<lambda>f. True) sample_env
      (new_handler UpdaterHandler (Some [(''install_nas'', VBool True)]))
      [package_lists_run_updater_cb]))) \<le> 1"
proof -
  let ?d = "[(''install_nas'', VBool True)]"
  have g: "get_form sample_env UpdaterHandler (Some ?d)
     = Inr (Some
        \<lparr>form_name = ''package_lists'', form_data = Some ?d,
         form_sections =
           [\<lparr>s_name = ''select_package_lists'',
             s_fields = [(fld Checkbox ''install_nas'')
                           \<lparr>f_nuci_path := Some ''uci.updater.pkglists.lists''\<rparr>]\<rparr>],
         callbacks = [package_lists_form_cb, package_lists_run_updater_cb],
         valid = False\<rparr>)"
    by (simp add: updater_get_form_def sample_env_def form_building)
  have i: "map fst (invoked (save (\<lambda>f. True) sample_env (new_handler UpdaterHandler (Some ?d)) []))
             = [''edit_config'', ''none'']"
    using g
    by (simp add: save_invoked_fresh submitted_def package_lists_form_cb_def
        package_lists_run_updater_cb_def Let_def)
  have x: "\<not> returns_edit_config package_lists_run_updater_cb ?d"
    by (simp add: returns_edit_config_def is_edit_config_def package_lists_run_updater_cb_def)
  from at_most_one_edit_config_per_handler
         [of sample_env UpdaterHandler "Some ?d" "\<lambda>f. True" "[package_lists_run_updater_cb]"]
       i x
  show ?thesis by simp
qed

text \<open>
  The bound counts the extra callbacks for a reason: one passed to \<^verbatim>\<open>save\<close> that returns
  \<^verbatim>\<open>edit_config\<close> adds its result to the handler's own.
\<close>

lemma save_extra_callback_counts_too:
  "map fst (invoked (save (\<lambda>f. True) sample_env
      (new_handler DNSHandler (Some [(''forward_upstream'', VBool True)])) [dns_form_cb]))
     = [''edit_config'', ''edit_config'']"
  by (simp add: save_invoked_fresh dns_get_form_def form_building submitted_def dns_form_cb_def
      bind_err_def getitem_def)

section \<open>One section per form\<close>

lemma other_handlers_single_section:
  "c \<noteq> NotificationsHandler \<Longrightarrow> get_form E c d = Inr (Some f) \<Longrightarrow>
   length (form_sections f) = 1"
  by (cases c)
     (auto simp: form_building password_get_form_def wan_get_form_def dns_get_form_def
        time_get_form_def lan_get_form_def wifi_get_form_def system_password_get_form_def
        maintenance_get_form_def updater_get_form_def
        ucollect_get_form_def Let_def split: option.splits if_splits)

text \<open>
  C7. \<^verbatim>\<open>BaseConfigHandler.get_form\<close> documents that a form MUST have a single section.
  NotificationsHandler breaks this: its form has the three sections \<^verbatim>\<open>notifications\<close>,
  \<^verbatim>\<open>smtp\<close> and \<^verbatim>\<open>reboot\<close>. (Every other handler's form has one, see
  \<open>other_handlers_single_section\<close>.)
\<close>

theorem notifications_get_form_sections:
  "get_form E NotificationsHandler d = Inr (Some (notifications_get_form d))
   \<and> map s_name (form_sections (notifications_get_form d)) = [''notifications'', ''smtp'', ''reboot'']
   \<and> length (form_sections (notifications_get_form d)) = 3"
  by (simp add: notifications_get_form_def form_building Let_def)


theorem notifications_get_form_sections_witness:
  "map s_name (form_sections (notifications_get_form None)) = [''notifications'', ''smtp'', ''reboot'']
   \<and> get_form sample_env NotificationsHandler None = Inr (Some (notifications_get_form None))"
  using notifications_get_form_sections [of sample_env None] by simp

section \<open>WifiHandler without a wireless card\<close>

text \<open>
  C10. \<^verbatim>\<open>WifiHandler.get_form\<close> returns \<^verbatim>\<open>None\<close> exactly when the stats report fewer than
  one wireless card, and returns a form exactly when they report at least one.
\<close>

theorem wifi_get_form_none_iff_no_card:
  "((get_form E WifiHandler d = Inr None) = (\<exists>cards. stats E = Some cards \<and> length cards < 1))
   \<and> ((\<exists>f. get_form E WifiHandler d = Inr (Some f))
        = (\<exists>cards. stats E = Some cards \<and> 1 \<le> length cards))"
  by (auto simp: wifi_get_form_def Suc_le_eq split: option.splits)

theorem wifi_get_form_none_iff_no_card_witness:
  "get_form (sample_env\<lparr>stats := Some []\<rparr>) WifiHandler None = Inr None
   \<and> (\<exists>f. get_form sample_env WifiHandler None = Inr (Some f))"
  using wifi_get_form_none_iff_no_card [of "sample_env\<lparr>stats := Some []\<rparr>" None]
        wifi_get_form_none_iff_no_card [of sample_env None]
  by (simp add: sample_env_def)

end
